theory Spec2Isabelle
  imports Main "HOL-Library.Sublist"
begin

section \<open>Strings, errors and parse trees\<close>

text \<open>
  The program is Python. Its strings are modelled as \<open>string\<close>; the string methods the
  source calls are written out below for the ASCII range.
\<close>

definition startswith :: "string \<Rightarrow> string \<Rightarrow> bool" where
  "startswith s p = (take (length p) s = p)"

definition is_space :: "char \<Rightarrow> bool" where
  "is_space c = (c \<in> set [CHR '' '', CHR 0x09, CHR 0x0A, CHR 0x0B, CHR 0x0C, CHR 0x0D,
                           CHR 0x1C, CHR 0x1D, CHR 0x1E, CHR 0x1F])"

text \<open>\<open>s.strip()\<close>: leading and trailing whitespace removed.\<close>

definition strip :: "string \<Rightarrow> string" where
  "strip s = rev (dropWhile is_space (rev (dropWhile is_space s)))"

text \<open>
  \<open>s.lstrip(chars)\<close>: the argument is a set of characters, and every leading character
  of \<open>s\<close> that belongs to it is removed.
\<close>

definition lstrip :: "string \<Rightarrow> string \<Rightarrow> string" where
  "lstrip s chars = dropWhile (\<lambda>c. c \<in> set chars) s"

definition lower_char :: "char \<Rightarrow> char" where
  "lower_char c =
     (case map_of (zip ''ABCDEFGHIJKLMNOPQRSTUVWXYZ'' ''abcdefghijklmnopqrstuvwxyz'') c of
        Some l \<Rightarrow> l
      | None \<Rightarrow> c)"

definition lower :: "string \<Rightarrow> string" where
  "lower s = map lower_char s"

text \<open>\<open>s.replace(old, "")\<close> for a non-empty \<open>old\<close>: occurrences are removed left to right.\<close>

fun remove_all :: "string \<Rightarrow> string \<Rightarrow> string" where
  "remove_all old [] = []"
| "remove_all old (c # cs) =
     (if old \<noteq> [] \<and> take (length old) (c # cs) = old
      then remove_all old (drop (length old) (c # cs))
      else c # remove_all old cs)"

text \<open>
  Exceptions are values. The constructors are the exception classes the source raises
  (\<open>ValueError\<close>, \<open>RuntimeError\<close>), the \<open>KeyError\<close> of a failed dictionary subscript, and
  \<open>LibraryError\<close> for whatever an external library raises. \<open>str_of_error\<close> is Python's
  \<open>str(e)\<close>, which the f-strings of the source apply.
\<close>

datatype error =
    ValueError string
  | KeyError string
  | RuntimeError string
  | LibraryError string

fun str_of_error :: "error \<Rightarrow> string" where
  "str_of_error (ValueError m) = m"
| "str_of_error (KeyError k) = [CHR 0x27] @ k @ [CHR 0x27]"
| "str_of_error (RuntimeError m) = m"
| "str_of_error (LibraryError m) = m"

text \<open>
  A BeautifulSoup parse tree. A \<open>NavigableString\<close> is a text node, a \<open>Comment\<close> is the
  subclass the source tests for, a \<open>Tag\<close> has a name, an attribute dictionary (its keys
  are unique) and its contents. The \<open>BeautifulSoup\<close> object itself is a \<open>Tag\<close> whose name
  is \<open>[document]\<close>.
\<close>

datatype node =
    NavigableString string
  | Comment string
  | Tag (name: string) (attrs: "(string \<times> string) list") (contents: "node list")

definition soup_of :: "node list \<Rightarrow> node" where
  "soup_of cs = Tag ''[document]'' [] cs"

text \<open>\<open>tag.get(key)\<close>: the attribute's value, or \<open>None\<close>.\<close>

fun get_attr :: "node \<Rightarrow> string \<Rightarrow> string option" where
  "get_attr (Tag n as cs) k = map_of as k"
| "get_attr _ k = None"

text \<open>A Python value that is a string or \<open>None\<close>.\<close>

datatype pyval = PyNone | PyStr string

text \<open>The dictionary \<open>{"path": ..., "text": ...}\<close> that the serializer encodes (the key
  \<open>text\<close> is the field \<open>text_field\<close>).\<close>

record node_data =
  path :: string
  text_field :: string

section \<open>External collaborators\<close>

text \<open>
  The libraries the source calls are parameters of the model, gathered in one record:
  \<open>BeautifulSoup(markup, "html.parser")\<close>, \<open>soup.decode_contents()\<close>,
  \<open>html2text.HTML2Text().handle\<close>, \<open>json.dumps\<close> on a record and on the list of lines,
  \<open>len(encoding.encode(...))\<close> of tiktoken, the language-model chain (it returns the
  content of the answer or raises), lxml's \<open>html.fromstring\<close>, \<open>tree.xpath\<close> and
  \<open>html.tostring\<close>, and \<open>urllib.parse.urljoin\<close>.
\<close>

record ('t, 'n) env =
  parse_html :: "string \<Rightarrow> node"
  decode_contents :: "node \<Rightarrow> string"
  html2text_handle :: "string \<Rightarrow> string"
  json_dumps_data :: "node_data \<Rightarrow> string"
  json_dumps :: "string list \<Rightarrow> string"
  count_tokens :: "string \<Rightarrow> nat"
  llm_invoke :: "string \<Rightarrow> error + string"
  fromstring :: "pyval \<Rightarrow> error + 't"
  xpath :: "'t \<Rightarrow> string \<Rightarrow> error + 'n list"
  tostring :: "'n \<Rightarrow> string"
  urljoin :: "string \<Rightarrow> string \<Rightarrow> string"

section \<open>CrawlTransformerUtils\<close>

definition non_essential_tags :: "string list" where
  "non_essential_tags =
     [''script'', ''style'', ''meta'', ''link'', ''iframe'', ''svg'',
      ''noscript'', ''figure'', ''picture'', ''img'', ''source'', ''button'',
      ''input'', ''nav'', ''footer'', ''header'', ''aside'']"

definition html_to_markdown :: "('t, 'n) env \<Rightarrow> string \<Rightarrow> string" where
  "html_to_markdown env html_content = html2text_handle env html_content"

text \<open>
  \<open>node_to_jsonl(node, non_essential_tags, path_prefix)\<close>. The loop over
  \<open>node.contents\<close> that extends \<open>lines\<close> is the concatenation of the children's lines.
\<close>

fun node_to_jsonl :: "('t, 'n) env \<Rightarrow> node \<Rightarrow> string list \<Rightarrow> string \<Rightarrow> string list" where
  "node_to_jsonl env (Comment c) nets path_prefix = []"
| "node_to_jsonl env (NavigableString s) nets path_prefix =
     (let text = strip s
      in if text \<noteq> []
         then (let current_path = lstrip path_prefix ''/[document]''
               in [json_dumps_data env \<lparr>path = current_path, text_field = text\<rparr>])
         else [])"
| "node_to_jsonl env (Tag nm as cs) nets path_prefix =
     (if lower nm \<in> set nets then []
      else (let current_path =
                  (if path_prefix \<noteq> [] then path_prefix @ ''/'' @ nm else ''/'' @ nm)
            in concat (map (\<lambda>child. node_to_jsonl env child nets current_path) cs)))"


subsection \<open>The BeautifulSoup operations the source calls\<close>

text \<open>All nodes below a tag, in document order (the tag itself is not among them).\<close>

fun descendants :: "node \<Rightarrow> node list" where
  "descendants (Tag nm as cs) = concat (map (\<lambda>c. c # descendants c) cs)"
| "descendants _ = []"

fun tag_named :: "string \<Rightarrow> node \<Rightarrow> bool" where
  "tag_named nm (Tag n as cs) = (n = nm)"
| "tag_named nm _ = False"

text \<open>
  \<open>soup.find_all(name, ...)\<close>: the descendant tags of that name that satisfy the
  attribute filter, in document order; \<open>soup.find\<close> is the first of them or \<open>None\<close>.
  \<open>soup.title\<close> and \<open>soup.html\<close> are \<open>soup.find("title")\<close> and \<open>soup.find("html")\<close>.
\<close>

text \<open>
  The attribute filters of the source: none, \<open>href=True\<close> (the attribute is present) and
  \<open>attrs={key: value}\<close> or \<open>property=value\<close> (the attribute has that value).
\<close>

definition no_filter :: "node \<Rightarrow> bool" where
  "no_filter n = True"

definition has_attr :: "string \<Rightarrow> node \<Rightarrow> bool" where
  "has_attr k n = (get_attr n k \<noteq> None)"

definition attr_is :: "string \<Rightarrow> string \<Rightarrow> node \<Rightarrow> bool" where
  "attr_is k v n = (get_attr n k = Some v)"

definition find_all :: "node \<Rightarrow> string \<Rightarrow> (node \<Rightarrow> bool) \<Rightarrow> node list" where
  "find_all soup nm attr_filter =
     filter (\<lambda>n. tag_named nm n \<and> attr_filter n) (descendants soup)"

definition find :: "node \<Rightarrow> string \<Rightarrow> (node \<Rightarrow> bool) \<Rightarrow> node option" where
  "find soup nm attr_filter =
     (case find_all soup nm attr_filter of [] \<Rightarrow> None | n # _ \<Rightarrow> Some n)"

text \<open>
  \<open>tag.string\<close>: the single child if it is a string, the \<open>string\<close> of the single child
  if it is a tag, \<open>None\<close> when the tag has no child or several.
\<close>

fun tag_string :: "node \<Rightarrow> string option" where
  "tag_string (NavigableString s) = Some s"
| "tag_string (Comment s) = Some s"
| "tag_string (Tag nm as [c]) = tag_string c"
| "tag_string (Tag nm as cs) = None"

text \<open>
  \<open>for element in ...: element.decompose()\<close> takes every matched element out of the
  tree together with its subtree. The tree is a value here, so the result is the tree
  without the matched descendants.
\<close>

fun decompose_all :: "(node \<Rightarrow> bool) \<Rightarrow> node \<Rightarrow> node" where
  "decompose_all matched (Tag nm as cs) =
     Tag nm as (map (decompose_all matched) (filter (\<lambda>c. \<not> matched c) cs))"
| "decompose_all matched n = n"

fun words_acc :: "string \<Rightarrow> string \<Rightarrow> string list" where
  "words_acc cur [] = (if cur = [] then [] else [cur])"
| "words_acc cur (c # cs) =
     (if is_space c then (if cur = [] then words_acc [] cs else cur # words_acc [] cs)
      else words_acc (cur @ [c]) cs)"

text \<open>
  \<open>soup.select(selector)\<close> for the three selector forms of the removal catalogue: a tag
  name, \<open>.class\<close> and \<open>#id\<close>. The \<open>class\<close> attribute is a whitespace-separated list.
\<close>

fun select_matches :: "string \<Rightarrow> node \<Rightarrow> bool" where
  "select_matches selector (Tag nm as cs) =
     (case selector of
        [] \<Rightarrow> False
      | c # rest \<Rightarrow>
          if c = CHR ''.'' then
            (case map_of as ''class'' of None \<Rightarrow> False | Some v \<Rightarrow> rest \<in> set (words_acc [] v))
          else if c = CHR ''#'' then map_of as ''id'' = Some rest
          else nm = selector)"
| "select_matches selector _ = False"

subsection \<open>remove_unwanted_elements\<close>

text \<open>
  The two removal loops change the parse tree in place; \<open>sanitized_soup\<close> is the tree
  they leave, and the function returns its \<open>decode_contents()\<close>.
\<close>

definition sanitized_soup :: "node \<Rightarrow> string list \<Rightarrow> bool \<Rightarrow> string list \<Rightarrow> node" where
  "sanitized_soup soup exclude_tags only_main_content extra_removals =
     (let soup1 = foldl (\<lambda>soup tag. decompose_all (tag_named tag) soup) soup
                    ([''script'', ''style'', ''noscript'', ''meta'', ''head''] @ exclude_tags);
          soup2 = (if only_main_content
                   then foldl (\<lambda>soup tag. decompose_all (select_matches tag) soup) soup1
                          extra_removals
                   else soup1)
      in soup2)"

definition remove_unwanted_elements ::
  "('t, 'n) env \<Rightarrow> node \<Rightarrow> string list \<Rightarrow> bool \<Rightarrow> string list \<Rightarrow> string" where
  "remove_unwanted_elements env soup exclude_tags only_main_content extra_removals =
     decode_contents env (sanitized_soup soup exclude_tags only_main_content extra_removals)"

subsection \<open>extract_links\<close>

text \<open>
  \<open>links\<close> is a Python set and the result is \<open>list(links)\<close>, whose order Python leaves
  open. The set is kept as a list without repetitions, in order of first insertion.
\<close>

definition set_add :: "'a \<Rightarrow> 'a list \<Rightarrow> 'a list" where
  "set_add x xs = (if x \<in> set xs then xs else xs @ [x])"

definition link_step :: "('t, 'n) env \<Rightarrow> string \<Rightarrow> string list \<Rightarrow> string \<Rightarrow> string list" where
  "link_step env base_url links href =
     (if startswith href ''http://'' \<or> startswith href ''https://'' then set_add href links
      else if startswith href ''/'' then set_add (urljoin env base_url href) links
      else if \<not> (startswith href ''#'' \<or> startswith href ''mailto:'')
        then set_add (urljoin env base_url href) links
      else if startswith href ''mailto:'' then set_add href links
      else links)"

definition hrefs :: "node \<Rightarrow> string list" where
  "hrefs soup =
     map (\<lambda>a. the (get_attr a ''href'')) (find_all soup ''a'' (has_attr ''href''))"

definition extract_links :: "('t, 'n) env \<Rightarrow> node \<Rightarrow> string \<Rightarrow> string list" where
  "extract_links env soup base_url = foldl (link_step env base_url) [] (hrefs soup)"

subsection \<open>extract_metadata\<close>

text \<open>
  The metadata dictionary maps a key to a value that is a string or Python's \<open>None\<close>:
  \<open>m k = None\<close> is an absent key, \<open>m k = Some None\<close> a key that holds \<open>None\<close>.
\<close>

type_synonym metadata_dict = "string \<rightharpoonup> string option"

definition og_step :: "node \<Rightarrow> metadata_dict \<Rightarrow> string \<Rightarrow> metadata_dict" where
  "og_step soup metadata tag =
     (case find soup ''meta'' (attr_is ''property'' tag) of
        Some og_meta \<Rightarrow> metadata(remove_all ''og:'' tag \<mapsto> get_attr og_meta ''content'')
      | None \<Rightarrow> metadata)"

definition extract_metadata :: "node \<Rightarrow> metadata_dict" where
  "extract_metadata soup =
     (let metadata =
        [''title'' \<mapsto>
            (case find soup ''title'' no_filter of Some t \<Rightarrow> tag_string t | None \<Rightarrow> None),
         ''description'' \<mapsto>
            (case find soup ''meta'' (attr_is ''name'' ''description'') of
               Some m \<Rightarrow> get_attr m ''content'' | None \<Rightarrow> None),
         ''keywords'' \<mapsto>
            (case find soup ''meta'' (attr_is ''name'' ''keywords'') of
               Some m \<Rightarrow> get_attr m ''content'' | None \<Rightarrow> None),
         ''language'' \<mapsto>
            (case find soup ''html'' no_filter of Some h \<Rightarrow> get_attr h ''lang'' | None \<Rightarrow> None)]
      in foldl (og_step soup) metadata [''og:title'', ''og:description'', ''og:url'', ''og:image''])"


section \<open>Documents, the store of node-tree lists, and the pipeline\<close>

text \<open>
  The node tree of a document is a Python list that \<open>_trim_node_tree\<close> changes in place
  through a second reference. Lists therefore live in a store, and the document holds
  the address of its list.
\<close>

type_synonym addr = nat

record heap =
  cells :: "addr \<Rightarrow> string list"
  next_addr :: addr

definition alloc :: "string list \<Rightarrow> heap \<Rightarrow> addr \<times> heap" where
  "alloc xs h =
     (next_addr h, h\<lparr>cells := (cells h)(next_addr h := xs), next_addr := Suc (next_addr h)\<rparr>)"

text \<open>\<open>node_tree.pop()\<close> on a non-empty list.\<close>

definition pop :: "addr \<Rightarrow> heap \<Rightarrow> heap" where
  "pop a h = h\<lparr>cells := (cells h)(a := butlast (cells h a))\<rparr>"

text \<open>
  The document dictionary: a field is \<open>None\<close> while its key is absent. The keys
  \<open>rawHtml\<close> and \<open>html\<close> hold a string or Python's \<open>None\<close>.
\<close>

record document =
  rawHtml :: "pyval option"
  html :: "pyval option"
  full_markdown :: "string option"
  metadata :: "metadata_dict option"
  node_tree :: "addr option"
  mc_path :: "string option"
  mc_html :: "string option"
  mc_markdown :: "string option"
  mc_links :: "string list option"

text \<open>
  The \<open>meta\<close> dictionary: of its keys the pipeline reads \<open>options\<close> only, and of the
  options \<open>excludeTags\<close> and \<open>onlyMainContent\<close> (both read with a default).
\<close>

record options =
  excludeTags :: "string list option"
  onlyMainContent :: "bool option"

record meta =
  meta_url :: string
  options :: "options option"

definition exclude_non_main_tags :: "string list" where
  "exclude_non_main_tags =
     [''header'', ''footer'', ''nav'', ''aside'', ''.header'', ''.top'', ''.navbar'', ''#header'',
      ''.footer'', ''.bottom'', ''#footer'', ''.sidebar'', ''.side'', ''.aside'', ''#sidebar'',
      ''.modal'', ''.popup'', ''#modal'', ''.overlay'', ''.ad'', ''.ads'', ''.advert'', ''#ad'',
      ''.lang-selector'', ''.language'', ''#language-selector'', ''.social'', ''.social-media'',
      ''.social-links'', ''#social'', ''.menu'', ''.navigation'', ''#nav'', ''.breadcrumbs'',
      ''#breadcrumbs'', ''#search-form'', ''.search'', ''#search'', ''.share'', ''#share'',
      ''.widget'', ''#widget'', ''.cookie'', ''#cookie'']"

text \<open>
  A transformer takes the fresh parse tree, \<open>meta\<close> and the document, and returns the
  updated document or raises. Each of the four registered transformers assigns its one
  field as its last action, so a transformer that raises has changed nothing.
\<close>

type_synonym transformer = "node \<Rightarrow> meta \<Rightarrow> document \<Rightarrow> heap \<Rightarrow> error + document \<times> heap"

definition derive_html_from_raw_html :: "('t, 'n) env \<Rightarrow> transformer" where
  "derive_html_from_raw_html env soup meta document h =
     (case options meta of
        None \<Rightarrow> Inl (KeyError ''options'')
      | Some opts \<Rightarrow>
          Inr (document\<lparr>html := Some (PyStr (remove_unwanted_elements env soup
                 (case excludeTags opts of None \<Rightarrow> [] | Some ts \<Rightarrow> ts)
                 (case onlyMainContent opts of None \<Rightarrow> False | Some b \<Rightarrow> b)
                 exclude_non_main_tags))\<rparr>, h))"

definition derive_markdown_from_html :: "('t, 'n) env \<Rightarrow> transformer" where
  "derive_markdown_from_html env soup meta document h =
     (case html document of
        None \<Rightarrow> Inl (KeyError ''html'')
      | Some PyNone \<Rightarrow> Inl (LibraryError ''html2text'')
      | Some (PyStr s) \<Rightarrow> Inr (document\<lparr>full_markdown := Some (html_to_markdown env s)\<rparr>, h))"

text \<open>\<open>{**extract_metadata(soup), **document.get("metadata", {})}\<close>: the entries of the
  second dictionary win.\<close>

definition derive_metadata_from_html :: "('t, 'n) env \<Rightarrow> transformer" where
  "derive_metadata_from_html env soup meta document h =
     Inr (document\<lparr>metadata := Some (extract_metadata soup ++
            (case metadata document of None \<Rightarrow> Map.empty | Some m \<Rightarrow> m))\<rparr>, h)"

definition derive_node_tree :: "('t, 'n) env \<Rightarrow> transformer" where
  "derive_node_tree env soup meta document h =
     (case alloc (node_to_jsonl env soup non_essential_tags []) h of
        (a, h') \<Rightarrow> Inr (document\<lparr>node_tree := Some a\<rparr>, h'))"

text \<open>\<open>self.transformers\<close>, each with its \<open>__name__\<close>.\<close>

definition transformers :: "('t, 'n) env \<Rightarrow> (string \<times> transformer) list" where
  "transformers env =
     [(''_derive_html_from_raw_html'', derive_html_from_raw_html env),
      (''_derive_markdown_from_html'', derive_markdown_from_html env),
      (''_derive_metadata_from_html'', derive_metadata_from_html env),
      (''_derive_node_tree'', derive_node_tree env)]"

text \<open>
  The body of the \<open>try\<close> block of one iteration: the check of \<open>rawHtml\<close>, the parse of
  \<open>document["html"]\<close> and the call of the transformer.
\<close>

definition try_transformer ::
  "('t, 'n) env \<Rightarrow> transformer \<Rightarrow> meta \<Rightarrow> document \<Rightarrow> heap \<Rightarrow> error + document \<times> heap" where
  "try_transformer env transformer meta document h =
     (case rawHtml document of
        Some (PyStr raw) \<Rightarrow>
          if raw = [] then
            Inl (ValueError ''rawHtml is undefined or empty. Transformation cannot proceed.'')
          else (case html document of
                  Some (PyStr markup) \<Rightarrow> transformer (parse_html env markup) meta document h
                | _ \<Rightarrow> Inl (LibraryError ''BeautifulSoup''))
      | _ \<Rightarrow> Inl (ValueError ''rawHtml is undefined or empty. Transformation cannot proceed.''))"

text \<open>
  \<open>execute_transformers\<close>: the loop over \<open>self.transformers\<close>. The assignment
  \<open>document["html"] = document["rawHtml"]\<close> is the first statement of every iteration
  and stands outside the \<open>try\<close>, so a missing \<open>rawHtml\<close> key leaves the function as a
  \<open>KeyError\<close>. \<open>logs\<close> collects the messages given to \<open>self.logger.error\<close>.
\<close>

fun execute_transformers ::
  "('t, 'n) env \<Rightarrow> (string \<times> transformer) list \<Rightarrow> meta \<Rightarrow> document \<Rightarrow> heap \<Rightarrow> string list
     \<Rightarrow> error + document \<times> heap \<times> string list" where
  "execute_transformers env [] meta document h logs = Inr (document, h, logs)"
| "execute_transformers env ((nm, transformer) # ts) meta document h logs =
     (case rawHtml document of
        None \<Rightarrow> Inl (KeyError ''rawHtml'')
      | Some raw \<Rightarrow>
          (let document = document\<lparr>html := Some raw\<rparr>
           in case try_transformer env transformer meta document h of
                Inl e \<Rightarrow>
                  execute_transformers env ts meta document h
                    (logs @ [''Error in transformer '' @ nm @ '': '' @ str_of_error e])
              | Inr (document', h') \<Rightarrow> execute_transformers env ts meta document' h' logs))"


section \<open>CrawlTransformersMainContent\<close>

text \<open>
  \<open>max_tokens or self.max_tokens\<close>: an argument that is \<open>None\<close> or \<open>0\<close> gives way to the
  attribute.
\<close>

definition or_default :: "int option \<Rightarrow> int \<Rightarrow> int" where
  "or_default max_tokens self_max_tokens =
     (case max_tokens of
        None \<Rightarrow> self_max_tokens
      | Some m \<Rightarrow> if m = 0 then self_max_tokens else m)"

text \<open>
  \<open>_trim_node_tree(node_tree, max_tokens)\<close>. \<open>node_tree_ref\<close> is the reference the caller
  passes; the list behind it is read from and popped in the store. The result is the
  JSON string or the \<open>ValueError\<close>, together with the store the call leaves behind.
\<close>

function trim_node_tree ::
  "('t, 'n) env \<Rightarrow> int \<Rightarrow> addr \<Rightarrow> int option \<Rightarrow> heap \<Rightarrow> (error + string) \<times> heap" where
  "trim_node_tree env self_max_tokens node_tree_ref max_tokens h =
     (let json_string = json_dumps env (cells h node_tree_ref);
          token_count = int (count_tokens env json_string);
          max_tokens' = or_default max_tokens self_max_tokens
      in if token_count \<le> max_tokens' then (Inr json_string, h)
         else if cells h node_tree_ref \<noteq> []
           then trim_node_tree env self_max_tokens node_tree_ref (Some max_tokens')
                  (pop node_tree_ref h)
         else (Inl (ValueError ''Node tree is empty. Cannot trim further.''), h))"
  by pat_completeness auto
termination
  by (relation "measure (\<lambda>(env, sm, a, mt, h). length (cells h a))") (auto simp: pop_def)

declare trim_node_tree.simps [simp del]

definition clean_result_path :: "string \<Rightarrow> string" where
  "clean_result_path result = strip (remove_all ''```'' result)"

definition get_main_content_html :: "('t, 'n) env \<Rightarrow> pyval \<Rightarrow> string \<Rightarrow> error + string" where
  "get_main_content_html env full_html main_content_selector =
     (case (case fromstring env full_html of
              Inl e \<Rightarrow> Inl e
            | Inr tree \<Rightarrow> xpath env tree main_content_selector) of
        Inl e \<Rightarrow>
          Inl (ValueError (''Failed to select main content nodes: '' @ str_of_error e))
      | Inr main_content_nodes \<Rightarrow>
          if main_content_nodes \<noteq> [] then Inr (concat (map (tostring env) main_content_nodes))
          else Inl (ValueError ''Main content nodes not found in the HTML.''))"

text \<open>The \<open>except\<close> clause of \<open>extract_main_content\<close>.\<close>

definition failed_to_extract :: "error \<Rightarrow> error" where
  "failed_to_extract e = RuntimeError (''Failed to extract main content: '' @ str_of_error e)"

definition extract_main_content ::
  "('t, 'n) env \<Rightarrow> int \<Rightarrow> string \<Rightarrow> document \<Rightarrow> heap \<Rightarrow> (error + document) \<times> heap" where
  "extract_main_content env self_max_tokens url cleaned_data_obj h =
     (case html cleaned_data_obj of
        None \<Rightarrow> (Inl (failed_to_extract (KeyError ''html'')), h)
      | Some full_html \<Rightarrow>
     (case node_tree cleaned_data_obj of
        None \<Rightarrow> (Inl (failed_to_extract (KeyError ''node_tree'')), h)
      | Some node_tree_ref \<Rightarrow>
     (case trim_node_tree env self_max_tokens node_tree_ref None h of
        (Inl e, h') \<Rightarrow> (Inl (failed_to_extract e), h')
      | (Inr trimmed_json_string, h') \<Rightarrow>
     (case llm_invoke env trimmed_json_string of
        Inl e \<Rightarrow> (Inl (failed_to_extract e), h')
      | Inr content \<Rightarrow>
     (let cleaned_result = clean_result_path (strip content)
      in case get_main_content_html env full_html cleaned_result of
           Inl e \<Rightarrow> (Inl (failed_to_extract e), h')
         | Inr main_content_html \<Rightarrow>
             (Inr (cleaned_data_obj
                    \<lparr>mc_path := Some cleaned_result,
                     mc_html := Some main_content_html,
                     mc_markdown := Some (html_to_markdown env main_content_html),
                     mc_links := Some (extract_links env (parse_html env main_content_html) url)\<rparr>),
              h'))))))"

section \<open>MCScraperService\<close>

text \<open>
  \<open>ScrapingServiceOutput\<close>, and the two shapes of the dictionary that
  \<open>fetch_main_content\<close> returns.
\<close>

record scraping_service_output =
  link :: string
  status_code :: "int option"
  fetched_html :: "string option"

datatype scrape_result =
    ErrorResult string string
  | ContentResult string string string "string list"

definition prepare_meta :: "string \<Rightarrow> meta" where
  "prepare_meta url =
     \<lparr>meta_url = url, options = Some \<lparr>excludeTags = None, onlyMainContent = None\<rparr>\<rparr>"

definition initial_document :: "string \<Rightarrow> document" where
  "initial_document raw =
     \<lparr>rawHtml = Some (PyStr raw), html = None, full_markdown = None,
      metadata = Some Map.empty, node_tree = None, mc_path = None, mc_html = None,
      mc_markdown = None, mc_links = None\<rparr>"

text \<open>
  \<open>fetch_main_content\<close> after the fetch: \<open>fetched_data\<close> is what the scraping service
  returned. \<open>self_max_tokens\<close> is the extractor's \<open>max_tokens\<close> attribute (60000).
\<close>

definition fetch_main_content ::
  "('t, 'n) env \<Rightarrow> int \<Rightarrow> string \<Rightarrow> scraping_service_output \<Rightarrow> heap \<Rightarrow> scrape_result" where
  "fetch_main_content env self_max_tokens url fetched_data h =
     (if fetched_html fetched_data = None \<or> fetched_html fetched_data = Some []
         \<or> status_code fetched_data \<noteq> Some 200
      then ErrorResult url ''Failed to fetch content or bad status code''
      else
        (case execute_transformers env (transformers env) (prepare_meta url)
                (initial_document (the (fetched_html fetched_data))) h [] of
           Inl e \<Rightarrow> ErrorResult url (''Error fetching main content: '' @ str_of_error e)
         | Inr (cleaned_document, h1, logs) \<Rightarrow>
             (case extract_main_content env self_max_tokens url cleaned_document h1 of
                (Inl e, h2) \<Rightarrow> ErrorResult url (''Error fetching main content: '' @ str_of_error e)
              | (Inr main_content, h2) \<Rightarrow>
                  (case mc_html main_content of
                     None \<Rightarrow> ErrorResult url (''Error fetching main content: ''
                              @ str_of_error (KeyError ''mc_html''))
                   | Some mh \<Rightarrow>
                  (case mc_markdown main_content of
                     None \<Rightarrow> ErrorResult url (''Error fetching main content: ''
                              @ str_of_error (KeyError ''mc_markdown''))
                   | Some mm \<Rightarrow>
                  (case mc_links main_content of
                     None \<Rightarrow> ErrorResult url (''Error fetching main content: ''
                              @ str_of_error (KeyError ''mc_links''))
                   | Some ml \<Rightarrow> ContentResult url mh mm ml))))))"


section \<open>A test double for the external collaborators\<close>

text \<open>
  To run the model on concrete pages the libraries are replaced by small stand-ins:
  a serializer that writes tags, attributes and text without escaping, a parser that
  knows the parse of the pages in \<open>known_pages\<close>, an XPath evaluator for absolute child
  paths \<open>/a/b/c\<close>, a size estimator that counts characters, \<open>json.dumps\<close> for strings
  that need no escaping, an oracle with a fixed answer, and \<open>urljoin\<close> for a base URL
  that is an origin followed by \<open>/\<close>.
\<close>

fun serialize :: "node \<Rightarrow> string" where
  "serialize (NavigableString s) = s"
| "serialize (Comment c) = ''<!--'' @ c @ ''-->''"
| "serialize (Tag nm as cs) =
     ''<'' @ nm @ concat (map (\<lambda>(k, v). '' '' @ k @ ''='' @ [CHR 0x22] @ v @ [CHR 0x22]) as) @ ''>''
       @ concat (map serialize cs) @ ''</'' @ nm @ ''>''"

definition example_article :: node where
  "example_article =
     Tag ''article'' []
       [Tag ''p'' [] [NavigableString ''Hello '',
                      Tag ''a'' [(''href'', ''/x'')] [NavigableString ''link'']]]"

definition example_page :: node where
  "example_page =
     soup_of [Tag ''html'' []
       [Tag ''body'' [] [Tag ''nav'' [] [NavigableString ''Home''], example_article]]]"

definition script_page :: node where
  "script_page =
     soup_of [Tag ''script'' [] [NavigableString ''x''], Tag ''p'' [] [NavigableString ''Hi'']]"

definition script_markup :: string where
  "script_markup = ''<script>x</script><p>Hi</p>''"

definition known_pages :: "node list" where
  "known_pages = [example_page, soup_of [example_article], script_page]"

definition stub_parse_html :: "string \<Rightarrow> node" where
  "stub_parse_html markup =
     (case List.find (\<lambda>t. concat (map serialize (contents t)) = markup) known_pages of
        Some t \<Rightarrow> t
      | None \<Rightarrow> soup_of [NavigableString markup])"

fun split_path :: "string \<Rightarrow> string \<Rightarrow> string list" where
  "split_path cur [] = [cur]"
| "split_path cur (c # cs) =
     (if c = CHR ''/'' then cur # split_path [] cs else split_path (cur @ [c]) cs)"

fun child_steps :: "string list \<Rightarrow> node list \<Rightarrow> node list" where
  "child_steps [] ns = ns"
| "child_steps (s # ss) ns =
     child_steps ss (concat (map (\<lambda>n. filter (tag_named s) (contents n)) ns))"

definition stub_xpath :: "node \<Rightarrow> string \<Rightarrow> error + node list" where
  "stub_xpath tree selector =
     (case selector of
        [] \<Rightarrow> Inl (LibraryError ''Invalid expression'')
      | c # rest \<Rightarrow>
          if c = CHR ''/'' then Inr (child_steps (split_path [] rest) [tree])
          else Inl (LibraryError ''Invalid expression''))"

definition stub_json_dumps :: "string list \<Rightarrow> string" where
  "stub_json_dumps xs =
     ''['' @ concat (map (\<lambda>x. [CHR 0x22] @ x @ [CHR 0x22]) (take 1 xs)
            @ map (\<lambda>x. '', '' @ [CHR 0x22] @ x @ [CHR 0x22]) (drop 1 xs)) @ '']''"

definition stub_env :: "(node, node) env" where
  "stub_env =
     \<lparr>parse_html = stub_parse_html,
      decode_contents = (\<lambda>soup. concat (map serialize (contents soup))),
      html2text_handle = (\<lambda>markup. markup),
      json_dumps_data = (\<lambda>d. path d @ '': '' @ text_field d),
      json_dumps = stub_json_dumps,
      count_tokens = length,
      llm_invoke = (\<lambda>nodes. Inr ''```/html/body/article```''),
      fromstring = (\<lambda>v. case v of
                            PyNone \<Rightarrow> Inl (LibraryError ''expected string'')
                          | PyStr markup \<Rightarrow> Inr (stub_parse_html markup)),
      xpath = stub_xpath,
      tostring = serialize,
      urljoin = (\<lambda>base_url href.
                   if startswith href ''/'' then butlast base_url @ href else base_url @ href)\<rparr>"



definition empty_heap :: heap where
  "empty_heap = \<lparr>cells = (\<lambda>a. []), next_addr = 0\<rparr>"

text \<open>A store whose only list, at address 0, is \<open>xs\<close>.\<close>

definition heap_with :: "string list \<Rightarrow> heap" where
  "heap_with xs = \<lparr>cells = (\<lambda>a. if a = 0 then xs else []), next_addr = 1\<rparr>"


definition example_markup :: string where
  "example_markup = concat (map serialize (contents example_page))"

definition example_document :: document where
  "example_document =
     \<lparr>rawHtml = Some (PyStr example_markup), html = Some (PyStr example_markup),
      full_markdown = None, metadata = Some Map.empty, node_tree = Some 0, mc_path = None,
      mc_html = None, mc_markdown = None, mc_links = None\<rparr>"

section \<open>Notions used in the statements\<close>

text \<open>A tag whose name is one of \<open>tags\<close>.\<close>

fun named_in :: "string list \<Rightarrow> node \<Rightarrow> bool" where
  "named_in tags (Tag nm as cs) = (nm \<in> set tags)"
| "named_in tags _ = False"

text \<open>
  The nodes below \<open>t\<close> that are neither matched nor inside a matched node, in document
  order.
\<close>

fun kept :: "(node \<Rightarrow> bool) \<Rightarrow> node \<Rightarrow> node list" where
  "kept matched (Tag nm as cs) =
     concat (map (\<lambda>c. if matched c then [] else c # kept matched c) cs)"
| "kept matched _ = []"


text \<open>The message the pipeline logs for the transformer \<open>nm\<close> when \<open>rawHtml\<close> is empty.\<close>

definition missing_input_message :: "string \<Rightarrow> string" where
  "missing_input_message nm =
     ''Error in transformer '' @ nm
       @ '': rawHtml is undefined or empty. Transformation cannot proceed.''"

text \<open>A page with a title, a language and an Open Graph URL, and a document that already has a title.\<close>

definition titled_page :: node where
  "titled_page = soup_of [Tag ''html'' [(''lang'', ''en'')]
     [Tag ''head'' [] [Tag ''title'' [] [NavigableString ''New''],
                       Tag ''meta'' [(''property'', ''og:url''), (''content'', ''https://ex.com/'')] []]]]"

definition titled_document :: document where
  "titled_document = example_document\<lparr>metadata := Some [''title'' \<mapsto> Some ''Old'']\<rparr>"

section \<open>Evaluation of the test double on the example page\<close>

lemma stub_parse_example: "stub_parse_html example_markup = example_page"
  by (simp add: stub_parse_html_def known_pages_def example_markup_def)

lemma stub_fromstring_example: "fromstring stub_env (PyStr example_markup) = Inr example_page"
  by (simp add: stub_env_def stub_parse_example)

lemma stub_xpath_article: "stub_xpath example_page ''/html/body/article'' = Inr [example_article]"
  by (simp add: stub_xpath_def example_page_def soup_of_def example_article_def)


lemma clean_fenced_path:
  "clean_result_path (strip ''```/html/body/article```'') = ''/html/body/article''"
  by (simp add: clean_result_path_def strip_def is_space_def)


section \<open>The node-tree serializer\<close>

lemma node_to_jsonl_text:
  "node_to_jsonl env (NavigableString s) nets pp =
     (if strip s = [] then []
      else [json_dumps_data env \<lparr>path = lstrip pp ''/[document]'', text_field = strip s\<rparr>])"
  by (simp add: Let_def)

lemma node_to_jsonl_non_essential:
  "lower nm \<in> set nets \<Longrightarrow> node_to_jsonl env (Tag nm as cs) nets pp = []"
  by simp

text \<open>
  C5. The path of a record is \<open>path_prefix.lstrip("/[document]")\<close>, and \<open>lstrip\<close> removes
  every leading character that occurs in its argument, not the marker as a prefix. On
  the parse of \<open><div><p>Hi</p></div>\<close> the prefix of the text node is
  \<open>/[document]/div/p\<close>; after the marker the slash and the \<open>d\<close> of \<open>div\<close> are removed as
  well, and the record carries the path \<open>iv/p\<close>. The first tag name is not preserved.
\<close>

theorem node_to_jsonl_mangles_first_tag:
  "node_to_jsonl env (soup_of [Tag ''div'' [] [Tag ''p'' [] [NavigableString ''Hi'']]])
       non_essential_tags []
     = [json_dumps_data env \<lparr>path = ''iv/p'', text_field = ''Hi''\<rparr>]"
  by (simp add: soup_of_def non_essential_tags_def lower_def lower_char_def lstrip_def
        strip_def is_space_def)

section \<open>The selector extractor\<close>





section \<open>The link extractor\<close>







section \<open>The metadata extractor\<close>

lemma og_keys:
  "remove_all ''og:'' ''og:title'' = ''title''"
  "remove_all ''og:'' ''og:description'' = ''description''"
  "remove_all ''og:'' ''og:url'' = ''url''"
  "remove_all ''og:'' ''og:image'' = ''image''"
  by simp_all

lemma og_step_apply:
  "og_step soup md tag k =
     (case find soup ''meta'' (attr_is ''property'' tag) of
        Some og \<Rightarrow> if k = remove_all ''og:'' tag then Some (get_attr og ''content'') else md k
      | None \<Rightarrow> md k)"
  by (simp add: og_step_def split: option.splits)

lemma extract_metadata_keys:
  "extract_metadata soup ''title'' =
     Some (case find soup ''meta'' (attr_is ''property'' ''og:title'') of
             Some og \<Rightarrow> get_attr og ''content''
           | None \<Rightarrow> (case find soup ''title'' no_filter of
                        Some t \<Rightarrow> tag_string t | None \<Rightarrow> None))"
  "extract_metadata soup ''description'' =
     Some (case find soup ''meta'' (attr_is ''property'' ''og:description'') of
             Some og \<Rightarrow> get_attr og ''content''
           | None \<Rightarrow> (case find soup ''meta'' (attr_is ''name'' ''description'') of
                        Some m \<Rightarrow> get_attr m ''content'' | None \<Rightarrow> None))"
  "extract_metadata soup ''keywords'' =
     Some (case find soup ''meta'' (attr_is ''name'' ''keywords'') of
             Some m \<Rightarrow> get_attr m ''content'' | None \<Rightarrow> None)"
  "extract_metadata soup ''language'' =
     Some (case find soup ''html'' no_filter of Some h \<Rightarrow> get_attr h ''lang'' | None \<Rightarrow> None)"
  "extract_metadata soup ''url'' =
     (case find soup ''meta'' (attr_is ''property'' ''og:url'') of
        Some og \<Rightarrow> Some (get_attr og ''content'') | None \<Rightarrow> None)"
  "extract_metadata soup ''image'' =
     (case find soup ''meta'' (attr_is ''property'' ''og:image'') of
        Some og \<Rightarrow> Some (get_attr og ''content'') | None \<Rightarrow> None)"
  by (simp_all add: extract_metadata_def Let_def og_step_apply og_keys split: option.splits)

text \<open>
  C7, as the specification states it, fails on the example page: it has no \<open>title\<close>
  element and no description \<open>meta\<close> element, and the dictionary still has the keys
  \<open>title\<close> and \<open>description\<close>, holding \<open>None\<close>.
\<close>

theorem metadata_absent_key_counterexample:
  "find example_page ''title'' no_filter = None
   \<and> extract_metadata example_page ''title'' = Some None
   \<and> find example_page ''meta'' (attr_is ''name'' ''description'') = None
   \<and> extract_metadata example_page ''description'' = Some None"
  by (simp add: extract_metadata_keys find_def find_all_def example_page_def soup_of_def
        example_article_def no_filter_def attr_is_def)

text \<open>
  C7, amended. The keys \<open>title\<close>, \<open>description\<close>, \<open>keywords\<close> and \<open>language\<close> are always
  present; each holds \<open>None\<close> when its source element or attribute is missing. The Open
  Graph values are stored under the bare keys: \<open>url\<close> and \<open>image\<close> are present only when
  the \<open>og:\<close> element exists, and an \<open>og:title\<close> or \<open>og:description\<close> element replaces
  the value taken from the \<open>title\<close> element or the named \<open>meta\<close> element. The merge keeps
  every entry the document's metadata already has, and takes the extracted value for
  every other key.
\<close>

theorem metadata_extraction_and_merge:
  "extract_metadata soup ''title'' =
     Some (case find soup ''meta'' (attr_is ''property'' ''og:title'') of
             Some og \<Rightarrow> get_attr og ''content''
           | None \<Rightarrow> (case find soup ''title'' no_filter of
                        Some t \<Rightarrow> tag_string t | None \<Rightarrow> None))
   \<and> extract_metadata soup ''description'' =
     Some (case find soup ''meta'' (attr_is ''property'' ''og:description'') of
             Some og \<Rightarrow> get_attr og ''content''
           | None \<Rightarrow> (case find soup ''meta'' (attr_is ''name'' ''description'') of
                        Some m \<Rightarrow> get_attr m ''content'' | None \<Rightarrow> None))
   \<and> extract_metadata soup ''keywords'' =
     Some (case find soup ''meta'' (attr_is ''name'' ''keywords'') of
             Some m \<Rightarrow> get_attr m ''content'' | None \<Rightarrow> None)
   \<and> extract_metadata soup ''language'' =
     Some (case find soup ''html'' no_filter of Some h \<Rightarrow> get_attr h ''lang'' | None \<Rightarrow> None)
   \<and> extract_metadata soup ''url'' =
     (case find soup ''meta'' (attr_is ''property'' ''og:url'') of
        Some og \<Rightarrow> Some (get_attr og ''content'') | None \<Rightarrow> None)
   \<and> extract_metadata soup ''image'' =
     (case find soup ''meta'' (attr_is ''property'' ''og:image'') of
        Some og \<Rightarrow> Some (get_attr og ''content'') | None \<Rightarrow> None)
   \<and> (\<exists>merged. derive_metadata_from_html env soup meta d h = Inr (d\<lparr>metadata := Some merged\<rparr>, h)
        \<and> (\<forall>existing k v. metadata d = Some existing \<and> existing k = Some v \<longrightarrow> merged k = Some v)
        \<and> (\<forall>k. (\<forall>existing. metadata d = Some existing \<longrightarrow> existing k = None)
               \<longrightarrow> merged k = extract_metadata soup k))"
proof -
  let ?old = "case metadata d of None \<Rightarrow> Map.empty | Some m \<Rightarrow> m"
  have "derive_metadata_from_html env soup meta d h
          = Inr (d\<lparr>metadata := Some (extract_metadata soup ++ ?old)\<rparr>, h)"
    by (simp add: derive_metadata_from_html_def)
  moreover have "\<forall>existing k v. metadata d = Some existing \<and> existing k = Some v
                   \<longrightarrow> (extract_metadata soup ++ ?old) k = Some v"
    by (simp add: map_add_def)
  moreover have "\<forall>k. (\<forall>existing. metadata d = Some existing \<longrightarrow> existing k = None)
                   \<longrightarrow> (extract_metadata soup ++ ?old) k = extract_metadata soup k"
    by (cases "metadata d") (simp_all add: map_add_def)
  ultimately show ?thesis
    using extract_metadata_keys [of soup] by blast
qed

theorem metadata_extraction_and_merge_witness:
  "extract_metadata titled_page ''title'' = Some (Some ''New'')
   \<and> extract_metadata titled_page ''description'' = Some None
   \<and> extract_metadata titled_page ''url'' = Some (Some ''https://ex.com/'')
   \<and> extract_metadata titled_page ''image'' = None
   \<and> (\<exists>merged. derive_metadata_from_html stub_env titled_page (prepare_meta ''https://ex.com/'')
                   titled_document empty_heap
                 = Inr (titled_document\<lparr>metadata := Some merged\<rparr>, empty_heap)
        \<and> merged ''title'' = Some (Some ''Old'')
        \<and> merged ''language'' = Some (Some ''en''))"
proof -
  have f: "find titled_page ''meta'' (attr_is ''property'' ''og:title'') = None"
     "find titled_page ''meta'' (attr_is ''property'' ''og:description'') = None"
     "find titled_page ''meta'' (attr_is ''property'' ''og:image'') = None"
     "find titled_page ''meta'' (attr_is ''name'' ''description'') = None"
     "find titled_page ''meta'' (attr_is ''property'' ''og:url'')
        = Some (Tag ''meta'' [(''property'', ''og:url''), (''content'', ''https://ex.com/'')] [])"
     "find titled_page ''title'' no_filter = Some (Tag ''title'' [] [NavigableString ''New''])"
     "find titled_page ''html'' no_filter \<noteq> None"
     "get_attr (the (find titled_page ''html'' no_filter)) ''lang'' = Some ''en''"
    by (simp_all add: find_def find_all_def titled_page_def soup_of_def no_filter_def attr_is_def)
  have m: "metadata titled_document = Some [''title'' \<mapsto> Some ''Old'']"
    by (simp add: titled_document_def)
  note inst = metadata_extraction_and_merge [of titled_page stub_env "prepare_meta ''https://ex.com/''"
      titled_document empty_heap]
  from inst obtain merged where
    d: "derive_metadata_from_html stub_env titled_page (prepare_meta ''https://ex.com/'')
          titled_document empty_heap = Inr (titled_document\<lparr>metadata := Some merged\<rparr>, empty_heap)"
    and keep: "\<forall>existing k v. metadata titled_document = Some existing \<and> existing k = Some v
                 \<longrightarrow> merged k = Some v"
    and fresh: "\<forall>k. (\<forall>existing. metadata titled_document = Some existing \<longrightarrow> existing k = None)
                 \<longrightarrow> merged k = extract_metadata titled_page k"
    by blast
  have t: "merged ''title'' = Some (Some ''Old'')"
    using keep m by simp
  have "merged ''language'' = extract_metadata titled_page ''language''"
    using fresh m by simp
  with inst f have l: "merged ''language'' = Some (Some ''en'')"
    by (auto split: option.splits)
  from inst f have "extract_metadata titled_page ''title'' = Some (Some ''New'')
   \<and> extract_metadata titled_page ''description'' = Some None
   \<and> extract_metadata titled_page ''url'' = Some (Some ''https://ex.com/'')
   \<and> extract_metadata titled_page ''image'' = None"
    by simp
  with d t l show ?thesis by blast
qed

section \<open>The sanitizer\<close>

lemma named_in_decompose [simp]: "named_in tags (decompose_all q n) = named_in tags n"
  by (cases n) simp_all

lemma tag_named_decompose [simp]: "tag_named t (decompose_all q n) = tag_named t n"
  by (cases n) simp_all


lemma named_in_Cons: "named_in (t # ts) n = (tag_named t n \<or> named_in ts n)"
  by (cases n) auto





lemma kept_sub: "set (kept p t) \<subseteq> set (descendants t)"
proof (induction t)
  case (Tag nm as cs)
  then show ?case by (induction cs) auto
qed simp_all

lemma kept_not_matched: "n \<in> set (kept p t) \<Longrightarrow> \<not> p n"
proof (induction t)
  case (Tag nm as cs)
  then show ?case by (induction cs) (auto split: if_splits)
qed simp_all







section \<open>The token-budget trimmer\<close>

lemma or_default_idem [simp]: "or_default (Some (or_default mt sm)) sm = or_default mt sm"
  by (simp add: or_default_def split: option.splits)

lemma trim_unfold:
  "trim_node_tree env sm a mt h =
     (if int (count_tokens env (json_dumps env (cells h a))) \<le> or_default mt sm
      then (Inr (json_dumps env (cells h a)), h)
      else if cells h a \<noteq> []
        then trim_node_tree env sm a (Some (or_default mt sm)) (pop a h)
      else (Inl (ValueError ''Node tree is empty. Cannot trim further.''), h))"
  by (subst trim_node_tree.simps) (simp add: Let_def)

lemma prefix_butlast_cases:
  "prefix p xs \<Longrightarrow> xs \<noteq> [] \<Longrightarrow> p = xs \<or> prefix p (butlast xs)"
  by (metis append_butlast_last_id prefix_snoc)

lemma trim_props:
  "trim_node_tree env sm a mt h = (r, h') \<Longrightarrow>
     (\<forall>b. b \<noteq> a \<longrightarrow> cells h' b = cells h b) \<and> next_addr h' = next_addr h
   \<and> prefix (cells h' a) (cells h a)
   \<and> (\<forall>p. prefix p (cells h a) \<and> length (cells h' a) < length p \<longrightarrow>
          or_default mt sm < int (count_tokens env (json_dumps env p)))
   \<and> (r = Inr (json_dumps env (cells h' a))
        \<and> int (count_tokens env (json_dumps env (cells h' a))) \<le> or_default mt sm
      \<or> r = Inl (ValueError ''Node tree is empty. Cannot trim further.'')
        \<and> cells h' a = []
        \<and> or_default mt sm < int (count_tokens env (json_dumps env [])))"
proof (induction "length (cells h a)" arbitrary: h mt)
  case 0
  then have e: "cells h a = []" by simp
  show ?case
  proof (cases "int (count_tokens env (json_dumps env [])) \<le> or_default mt sm")
    case True
    with 0 e have "r = Inr (json_dumps env []) \<and> h' = h"
      by (auto simp: trim_unfold [of env sm a mt h])
    with e True show ?thesis by simp
  next
    case False
    with 0 e have "r = Inl (ValueError ''Node tree is empty. Cannot trim further.'') \<and> h' = h"
      by (auto simp: trim_unfold [of env sm a mt h])
    with e False show ?thesis by simp
  qed
next
  case (Suc n)
  then have ne: "cells h a \<noteq> []" by auto
  show ?case
  proof (cases "int (count_tokens env (json_dumps env (cells h a))) \<le> or_default mt sm")
    case True
    with Suc.prems have "r = Inr (json_dumps env (cells h a)) \<and> h' = h"
      by (auto simp: trim_unfold [of env sm a mt h])
    with True show ?thesis by (auto dest: prefix_length_le)
  next
    case False
    let ?h1 = "pop a h"
    have c1: "cells ?h1 a = butlast (cells h a)" by (simp add: pop_def)
    have rec: "trim_node_tree env sm a (Some (or_default mt sm)) ?h1 = (r, h')"
      using Suc.prems False ne by (auto simp: trim_unfold [of env sm a mt h])
    have len: "n = length (cells ?h1 a)" using Suc.hyps(2) c1 by simp
    note ih = Suc.hyps(1) [OF len rec, unfolded or_default_idem c1]
    have h'eq: "(\<forall>b. b \<noteq> a \<longrightarrow> cells h' b = cells h b) \<and> next_addr h' = next_addr h"
      using ih by (simp add: pop_def)
    have pre: "prefix (cells h' a) (cells h a)"
      using ih prefix_order.trans [OF _ prefixeq_butlast] by blast
    have longer: "\<forall>p. prefix p (cells h a) \<and> length (cells h' a) < length p \<longrightarrow>
          or_default mt sm < int (count_tokens env (json_dumps env p))"
    proof (intro allI impI)
      fix p assume p: "prefix p (cells h a) \<and> length (cells h' a) < length p"
      then consider "p = cells h a" | "prefix p (butlast (cells h a))"
        using prefix_butlast_cases ne by blast
      then show "or_default mt sm < int (count_tokens env (json_dumps env p))"
      proof cases
        case 1
        with False show ?thesis by simp
      next
        case 2
        with ih p show ?thesis by blast
      qed
    qed
    from ih h'eq pre longer show ?thesis by blast
  qed
qed

text \<open>
  C3, as the specification states it, fails. With a size estimator that counts
  characters, the one-record sequence \<open>["x"]\<close> and the budget 2: no non-empty subsequence
  fits (the sequence itself has size 5), and the trimmer does not fail but returns the
  serialization \<open>[]\<close> of the empty prefix. With the budget 0 the argument is replaced by
  the default 60000, and the result has size 5, above the budget that was asked for.
\<close>

theorem trim_node_tree_counterexample:
  "fst (trim_node_tree stub_env 60000 0 (Some 2) (heap_with [''x''])) = Inr ''[]''
   \<and> cells (snd (trim_node_tree stub_env 60000 0 (Some 2) (heap_with [''x'']))) 0 = []
   \<and> \<not> int (count_tokens stub_env (json_dumps stub_env [''x''])) \<le> 2
   \<and> fst (trim_node_tree stub_env 60000 0 (Some 0) (heap_with [''x'']))
       = Inr (json_dumps stub_env [''x''])
   \<and> \<not> int (count_tokens stub_env (json_dumps stub_env [''x''])) \<le> 0"
  by (simp add: trim_unfold stub_env_def stub_json_dumps_def heap_with_def pop_def or_default_def)

text \<open>
  C3, amended. Let the budget be the argument, or the default when the argument is
  missing or 0. The trimmer always returns. What it leaves in the list is a prefix of the
  input, and every longer prefix of the input exceeds the budget. It either returns the
  serialization of that prefix, whose size is within the budget (the prefix may be
  empty), or raises the \<open>ValueError\<close> "Node tree is empty. Cannot trim further."; it raises
  if and only if no prefix of the input, the empty one included, fits the budget.
\<close>

theorem trim_node_tree_longest_prefix:
  "\<exists>r h'. trim_node_tree env sm a mt h = (r, h')
     \<and> prefix (cells h' a) (cells h a)
     \<and> (\<forall>p. prefix p (cells h a) \<and> length (cells h' a) < length p \<longrightarrow>
            or_default mt sm < int (count_tokens env (json_dumps env p)))
     \<and> (r = Inr (json_dumps env (cells h' a))
          \<and> int (count_tokens env (json_dumps env (cells h' a))) \<le> or_default mt sm
        \<or> r = Inl (ValueError ''Node tree is empty. Cannot trim further.''))
     \<and> ((\<exists>e. r = Inl e) \<longleftrightarrow>
          (\<forall>p. prefix p (cells h a) \<longrightarrow>
             or_default mt sm < int (count_tokens env (json_dumps env p))))"
proof -
  obtain r h' where t: "trim_node_tree env sm a mt h = (r, h')"
    by (cases "trim_node_tree env sm a mt h")
  note props = trim_props [OF t]
  from props have pre: "prefix (cells h' a) (cells h a)" by blast
  from props have longer: "\<forall>p. prefix p (cells h a) \<and> length (cells h' a) < length p \<longrightarrow>
            or_default mt sm < int (count_tokens env (json_dumps env p))" by blast
  from props consider
      (ok) "r = Inr (json_dumps env (cells h' a))"
           "int (count_tokens env (json_dumps env (cells h' a))) \<le> or_default mt sm"
    | (fail) "r = Inl (ValueError ''Node tree is empty. Cannot trim further.'')"
             "cells h' a = []" "or_default mt sm < int (count_tokens env (json_dumps env []))"
    by blast
  then have "(r = Inr (json_dumps env (cells h' a))
          \<and> int (count_tokens env (json_dumps env (cells h' a))) \<le> or_default mt sm
        \<or> r = Inl (ValueError ''Node tree is empty. Cannot trim further.''))
     \<and> ((\<exists>e. r = Inl e) \<longleftrightarrow>
          (\<forall>p. prefix p (cells h a) \<longrightarrow>
             or_default mt sm < int (count_tokens env (json_dumps env p))))"
  proof cases
    case ok
    have "\<not> (\<forall>p. prefix p (cells h a) \<longrightarrow>
             or_default mt sm < int (count_tokens env (json_dumps env p)))"
      using pre ok(2) by (metis not_le)
    with ok show ?thesis by simp
  next
    case fail
    have "or_default mt sm < int (count_tokens env (json_dumps env p))" if "prefix p (cells h a)" for p
    proof (cases "p = []")
      case True
      with fail(3) show ?thesis by simp
    next
      case False
      with that fail(2) longer show ?thesis by simp
    qed
    with fail show ?thesis by simp
  qed
  with t pre longer show ?thesis by blast
qed

theorem trim_node_tree_longest_prefix_witness:
  "trim_node_tree stub_env 60000 0 (Some 2) (heap_with [''x'']) = (Inr ''[]'', pop 0 (heap_with [''x'']))
   \<and> prefix [] [''x'']
   \<and> or_default (Some 2) 60000 < int (count_tokens stub_env (json_dumps stub_env [''x'']))
   \<and> int (count_tokens stub_env (json_dumps stub_env [])) \<le> or_default (Some 2) 60000"
proof -
  have t: "trim_node_tree stub_env 60000 0 (Some 2) (heap_with [''x''])
             = (Inr ''[]'', pop 0 (heap_with [''x'']))"
    by (simp add: trim_unfold stub_env_def stub_json_dumps_def heap_with_def pop_def or_default_def)
  have c: "cells (pop 0 (heap_with [''x''])) 0 = []" "cells (heap_with [''x'']) 0 = [''x'']"
    by (simp_all add: pop_def heap_with_def)
  from trim_node_tree_longest_prefix [of stub_env 60000 0 "Some 2" "heap_with [''x'']"]
  have longer: "\<forall>p. prefix p [''x''] \<and> length ([]::string list) < length p \<longrightarrow>
            or_default (Some 2) 60000 < int (count_tokens stub_env (json_dumps stub_env p))"
    and fits: "int (count_tokens stub_env (json_dumps stub_env [])) \<le> or_default (Some 2) 60000"
    unfolding t using c by auto
  from longer have "or_default (Some 2) 60000 < int (count_tokens stub_env (json_dumps stub_env [''x'']))"
    by simp
  with t fits show ?thesis by simp
qed

lemma or_default_None: "or_default None sm = sm"
  by (simp add: or_default_def)

lemma extract_main_content_success:
  assumes "extract_main_content env sm url d h = (Inr d', h')"
  shows "\<exists>a js. node_tree d = Some a \<and> node_tree d' = Some a
           \<and> trim_node_tree env sm a None h = (Inr js, h')"
proof -
  from assms obtain full_html where fh: "html d = Some full_html"
    by (cases "html d") (auto simp: extract_main_content_def)
  from assms fh obtain a where a: "node_tree d = Some a"
    by (cases "node_tree d") (auto simp: extract_main_content_def)
  obtain r h1 where t: "trim_node_tree env sm a None h = (r, h1)"
    by (cases "trim_node_tree env sm a None h")
  from assms fh a t obtain js where js: "r = Inr js"
    by (cases r) (auto simp: extract_main_content_def)
  from assms fh a t js have "h1 = h' \<and> node_tree d' = Some a"
    by (auto simp: extract_main_content_def Let_def split: sum.splits)
  with a t js show ?thesis by blast
qed

text \<open>
  C10. The trimmer pops from the list behind the reference it is given: after the call
  that list is a prefix of what it was, every other list is untouched, a returned string
  is the serialization of the list as it now is, and after a failure the list is empty.
  \<open>extract_main_content\<close> passes the reference stored in the document's \<open>node_tree\<close>
  field, so after a successful extraction the field still holds that reference and the
  list behind it is the trimmed prefix that was sent to the oracle, within the budget,
  and strictly shorter than before whenever the full list exceeded the budget.
\<close>

theorem trim_mutates_callers_list:
  "(trim_node_tree env sm a mt h = (r, h') \<longrightarrow>
        prefix (cells h' a) (cells h a)
      \<and> (\<forall>b. b \<noteq> a \<longrightarrow> cells h' b = cells h b)
      \<and> (\<forall>js. r = Inr js \<longrightarrow> js = json_dumps env (cells h' a))
      \<and> (\<forall>e. r = Inl e \<longrightarrow> cells h' a = []))
   \<and> (extract_main_content env sm url d h2 = (Inr d', h2') \<longrightarrow>
        (\<exists>a2 js. node_tree d = Some a2 \<and> node_tree d' = Some a2
           \<and> trim_node_tree env sm a2 None h2 = (Inr js, h2')
           \<and> js = json_dumps env (cells h2' a2)
           \<and> int (count_tokens env js) \<le> sm
           \<and> prefix (cells h2' a2) (cells h2 a2)
           \<and> (sm < int (count_tokens env (json_dumps env (cells h2 a2)))
                \<longrightarrow> length (cells h2' a2) < length (cells h2 a2))))"
proof (rule conjI; rule impI)
  assume t: "trim_node_tree env sm a mt h = (r, h')"
  from trim_props [OF t]
  show "prefix (cells h' a) (cells h a)
      \<and> (\<forall>b. b \<noteq> a \<longrightarrow> cells h' b = cells h b)
      \<and> (\<forall>js. r = Inr js \<longrightarrow> js = json_dumps env (cells h' a))
      \<and> (\<forall>e. r = Inl e \<longrightarrow> cells h' a = [])"
    by auto
next
  assume e: "extract_main_content env sm url d h2 = (Inr d', h2')"
  from extract_main_content_success [OF e] obtain a2 js where
    a: "node_tree d = Some a2" "node_tree d' = Some a2"
    and t: "trim_node_tree env sm a2 None h2 = (Inr js, h2')"
    by blast
  note props = trim_props [OF t, unfolded or_default_None]
  from props have js: "js = json_dumps env (cells h2' a2)"
    and fits: "int (count_tokens env (json_dumps env (cells h2' a2))) \<le> sm"
    and pre: "prefix (cells h2' a2) (cells h2 a2)"
    by auto
  have strict: "length (cells h2' a2) < length (cells h2 a2)"
    if big: "sm < int (count_tokens env (json_dumps env (cells h2 a2)))"
  proof -
    from big fits have "cells h2' a2 \<noteq> cells h2 a2" by auto
    with pre show ?thesis
      by (auto simp: prefix_def)
  qed
  from a t js fits pre strict
  show "\<exists>a2 js. node_tree d = Some a2 \<and> node_tree d' = Some a2
           \<and> trim_node_tree env sm a2 None h2 = (Inr js, h2')
           \<and> js = json_dumps env (cells h2' a2)
           \<and> int (count_tokens env js) \<le> sm
           \<and> prefix (cells h2' a2) (cells h2 a2)
           \<and> (sm < int (count_tokens env (json_dumps env (cells h2 a2)))
                \<longrightarrow> length (cells h2' a2) < length (cells h2 a2))"
    by blast
qed

lemma stub_parse_article: "stub_parse_html (serialize example_article) = soup_of [example_article]"
  by (simp add: stub_parse_html_def known_pages_def example_page_def soup_of_def example_article_def)

lemma stub_trim_two:
  "trim_node_tree stub_env 10 0 None (heap_with [''aaaa'', ''bbbb''])
     = (Inr (json_dumps stub_env [''aaaa'']), pop 0 (heap_with [''aaaa'', ''bbbb'']))"
  by (simp add: trim_unfold stub_env_def stub_json_dumps_def heap_with_def pop_def or_default_def)

lemma stub_extract_example:
  "extract_main_content stub_env 10 ''https://ex.com/'' example_document
       (heap_with [''aaaa'', ''bbbb''])
     = (Inr (example_document
              \<lparr>mc_path := Some ''/html/body/article'',
               mc_html := Some (serialize example_article),
               mc_markdown := Some (serialize example_article),
               mc_links := Some [''https://ex.com/x'']\<rparr>),
        pop 0 (heap_with [''aaaa'', ''bbbb'']))"
proof -
  have d: "html example_document = Some (PyStr example_markup)" "node_tree example_document = Some 0"
    by (simp_all add: example_document_def)
  have l: "llm_invoke stub_env (json_dumps stub_env [''aaaa'']) = Inr ''```/html/body/article```''"
    by (simp add: stub_env_def)
  have x: "xpath stub_env example_page ''/html/body/article'' = Inr [example_article]"
    by (simp add: stub_env_def stub_xpath_article)
  have g: "get_main_content_html stub_env (PyStr example_markup) ''/html/body/article''
             = Inr (serialize example_article)"
    by (simp add: get_main_content_html_def stub_fromstring_example x) (simp add: stub_env_def)
  have md: "html_to_markdown stub_env (serialize example_article) = serialize example_article"
    by (simp add: html_to_markdown_def stub_env_def)
  have p: "parse_html stub_env (serialize example_article) = soup_of [example_article]"
    by (simp add: stub_env_def stub_parse_article)
  have links: "extract_links stub_env (soup_of [example_article]) ''https://ex.com/'' = [''https://ex.com/x'']"
    by (simp add: extract_links_def hrefs_def find_all_def soup_of_def example_article_def
          has_attr_def link_step_def startswith_def set_add_def stub_env_def)
  show ?thesis
    unfolding extract_main_content_def
    by (simp only: d option.case stub_trim_two prod.case sum.case l clean_fenced_path Let_def g md p links)
qed

theorem trim_mutates_callers_list_witness:
  "cells (heap_with [''aaaa'', ''bbbb'']) 0 = [''aaaa'', ''bbbb'']
   \<and> (\<exists>d' h'. extract_main_content stub_env 10 ''https://ex.com/'' example_document
                  (heap_with [''aaaa'', ''bbbb'']) = (Inr d', h')
         \<and> node_tree example_document = Some 0 \<and> node_tree d' = Some 0
         \<and> cells h' 0 = [''aaaa'']
         \<and> length (cells h' 0) < length (cells (heap_with [''aaaa'', ''bbbb'']) 0))"
proof -
  let ?h = "heap_with [''aaaa'', ''bbbb'']"
  have c: "cells ?h 0 = [''aaaa'', ''bbbb'']" "cells (pop 0 ?h) 0 = [''aaaa'']"
    by (simp_all add: heap_with_def pop_def)
  have nt: "node_tree example_document = Some 0" by (simp add: example_document_def)
  have big: "10 < int (count_tokens stub_env (json_dumps stub_env (cells ?h 0)))"
    by (simp add: c stub_env_def stub_json_dumps_def)
  from trim_mutates_callers_list [of stub_env 10 0 None ?h "Inr (json_dumps stub_env [''aaaa''])" "pop 0 ?h"
      "''https://ex.com/''" example_document ?h _ "pop 0 ?h"]
    stub_extract_example stub_trim_two nt big
  have "length (cells (pop 0 ?h) 0) < length (cells ?h 0)"
    by auto
  with stub_extract_example c nt show ?thesis by simp
qed

section \<open>The transformation pipeline\<close>









text \<open>
  C1. Every iteration of the loop first assigns \<open>document["html"] = document["rawHtml"]\<close>
  and then parses \<open>document["html"]\<close>. On the raw markup \<open><script>x</script><p>Hi</p>\<close>
  the first transformer alone leaves the cleaned markup in \<open>html\<close>, but in the full run
  the next iteration overwrites it: the Markdown is converted from the raw markup, the
  metadata and the node tree are taken from the parse of the raw markup, and the
  document that is returned has the raw markup in \<open>html\<close>. With the stand-in libraries the
  cleaned markup is \<open><p>Hi</p>\<close>, so the two differ.
\<close>

theorem later_stages_receive_raw_markup:
  "execute_transformers env (transformers env) (prepare_meta url) (initial_document script_markup) h []
     = Inr (\<lparr>rawHtml = Some (PyStr script_markup),
             html = Some (PyStr script_markup),
             full_markdown = Some (html2text_handle env script_markup),
             metadata = Some (extract_metadata (parse_html env script_markup) ++ Map.empty),
             node_tree = Some (next_addr h),
             mc_path = None, mc_html = None, mc_markdown = None, mc_links = None\<rparr>,
            snd (alloc (node_to_jsonl env (parse_html env script_markup) non_essential_tags []) h),
            [])
   \<and> execute_transformers env [(''_derive_html_from_raw_html'', derive_html_from_raw_html env)]
         (prepare_meta url) (initial_document script_markup) h []
     = Inr ((initial_document script_markup)
              \<lparr>html := Some (PyStr (remove_unwanted_elements env (parse_html env script_markup)
                                       [] False exclude_non_main_tags))\<rparr>,
            h, [])
   \<and> parse_html stub_env script_markup = script_page
   \<and> remove_unwanted_elements stub_env script_page [] False exclude_non_main_tags = ''<p>Hi</p>''
   \<and> script_markup = ''<script>x</script><p>Hi</p>''"
proof -
  have ne: "script_markup \<noteq> []" by (simp add: script_markup_def)
  have all: "execute_transformers env (transformers env) (prepare_meta url) (initial_document script_markup) h []
     = Inr (\<lparr>rawHtml = Some (PyStr script_markup),
             html = Some (PyStr script_markup),
             full_markdown = Some (html2text_handle env script_markup),
             metadata = Some (extract_metadata (parse_html env script_markup) ++ Map.empty),
             node_tree = Some (next_addr h),
             mc_path = None, mc_html = None, mc_markdown = None, mc_links = None\<rparr>,
            snd (alloc (node_to_jsonl env (parse_html env script_markup) non_essential_tags []) h),
            [])"
    by (simp add: transformers_def try_transformer_def derive_html_from_raw_html_def
          derive_markdown_from_html_def derive_metadata_from_html_def derive_node_tree_def
          html_to_markdown_def initial_document_def prepare_meta_def ne alloc_def)
  have first: "execute_transformers env [(''_derive_html_from_raw_html'', derive_html_from_raw_html env)]
         (prepare_meta url) (initial_document script_markup) h []
     = Inr ((initial_document script_markup)
              \<lparr>html := Some (PyStr (remove_unwanted_elements env (parse_html env script_markup)
                                       [] False exclude_non_main_tags))\<rparr>,
            h, [])"
    by (simp add: try_transformer_def derive_html_from_raw_html_def initial_document_def
          prepare_meta_def ne)
  have p: "parse_html stub_env script_markup = script_page"
    by (simp add: stub_env_def stub_parse_html_def known_pages_def script_markup_def script_page_def
          example_page_def example_article_def soup_of_def)
  have s: "remove_unwanted_elements stub_env script_page [] False exclude_non_main_tags = ''<p>Hi</p>''"
    by (simp add: remove_unwanted_elements_def sanitized_soup_def script_page_def soup_of_def stub_env_def)
  from all first p s show ?thesis by (simp add: script_markup_def)
qed

lemma try_transformer_empty_raw:
  "rawHtml d = Some raw \<Longrightarrow> raw = PyNone \<or> raw = PyStr [] \<Longrightarrow>
   try_transformer env f meta d h
     = Inl (ValueError ''rawHtml is undefined or empty. Transformation cannot proceed.'')"
  by (auto simp: try_transformer_def)

lemma execute_empty_raw_aux:
  assumes "rawHtml d = Some raw" and "raw = PyNone \<or> raw = PyStr []" and "html d = Some raw"
  shows "execute_transformers env ts meta d h logs
           = Inr (d, h, logs @ map (missing_input_message \<circ> fst) ts)"
  using assms
proof (induction ts arbitrary: logs)
  case Nil
  show ?case by simp
next
  case (Cons t ts)
  obtain nm f where t: "t = (nm, f)" by (cases t)
  have same: "d\<lparr>html := Some raw\<rparr> = d" using Cons.prems(3) by simp
  show ?case
    using Cons.prems Cons.IH [of "logs @ [missing_input_message nm]"]
    by (simp add: t same try_transformer_empty_raw missing_input_message_def)
qed

text \<open>
  C2, as the specification states it, fails: on a document whose raw markup is the
  empty string the pipeline does not end in an error. It returns the document, with
  \<open>html\<close> set to the empty raw markup, and has logged the \<open>ValueError\<close> once for each
  transformer.
\<close>

theorem empty_raw_markup_counterexample:
  "execute_transformers stub_env (transformers stub_env) (prepare_meta ''https://ex.com/'')
       (initial_document []) empty_heap []
     = Inr ((initial_document [])\<lparr>html := Some (PyStr [])\<rparr>, empty_heap,
            [missing_input_message ''_derive_html_from_raw_html'',
             missing_input_message ''_derive_markdown_from_html'',
             missing_input_message ''_derive_metadata_from_html'',
             missing_input_message ''_derive_node_tree''])"
  by (simp add: transformers_def try_transformer_def initial_document_def missing_input_message_def)

text \<open>
  C2, amended. When \<open>rawHtml\<close> is the empty string or \<open>None\<close>, no transformer runs,
  whatever the list of transformers is: the pipeline returns the document with \<open>html\<close>
  reset to the raw value and nothing else changed, leaves the store as it was, and logs
  "rawHtml is undefined or empty. Transformation cannot proceed." once per transformer.
  When the key \<open>rawHtml\<close> is missing, the pipeline raises \<open>KeyError\<close> before any
  transformer. The result for the document is the error shape all the same:
  \<open>fetch_main_content\<close> returns it for empty or missing markup without entering the
  pipeline, and the extraction that follows a pipeline run on such a document fails,
  since the document has no node tree.
\<close>

theorem empty_raw_markup:
  "(rawHtml d = Some raw \<and> (raw = PyNone \<or> raw = PyStr []) \<and> ts \<noteq> []
      \<longrightarrow> execute_transformers env ts meta d h logs
            = Inr (d\<lparr>html := Some raw\<rparr>, h, logs @ map (missing_input_message \<circ> fst) ts))
   \<and> (rawHtml d = None \<and> ts \<noteq> []
      \<longrightarrow> execute_transformers env ts meta d h logs = Inl (KeyError ''rawHtml''))
   \<and> (fetched_html fetched_data = None \<or> fetched_html fetched_data = Some []
      \<longrightarrow> fetch_main_content env sm url fetched_data h
            = ErrorResult url ''Failed to fetch content or bad status code'')
   \<and> (node_tree d = None
      \<longrightarrow> extract_main_content env sm url (d\<lparr>html := Some raw\<rparr>) h
            = (Inl (RuntimeError (''Failed to extract main content: ''
                                    @ str_of_error (KeyError ''node_tree''))), h))"
proof (intro conjI impI)
  assume a: "rawHtml d = Some raw \<and> (raw = PyNone \<or> raw = PyStr []) \<and> ts \<noteq> []"
  then obtain t ts' where ts: "ts = t # ts'" by (cases ts) auto
  obtain nm f where t: "t = (nm, f)" by (cases t)
  let ?d = "d\<lparr>html := Some raw\<rparr>"
  have "execute_transformers env ts' meta ?d h (logs @ [missing_input_message nm])
          = Inr (?d, h, (logs @ [missing_input_message nm]) @ map (missing_input_message \<circ> fst) ts')"
    using a by (intro execute_empty_raw_aux [where raw = raw]) simp_all
  moreover have "try_transformer env f meta ?d h
     = Inl (ValueError ''rawHtml is undefined or empty. Transformation cannot proceed.'')"
    using a by (intro try_transformer_empty_raw [where raw = raw]) simp_all
  ultimately show "execute_transformers env ts meta d h logs
            = Inr (?d, h, logs @ map (missing_input_message \<circ> fst) ts)"
    using a by (simp add: ts t missing_input_message_def)
next
  assume "rawHtml d = None \<and> ts \<noteq> []"
  then show "execute_transformers env ts meta d h logs = Inl (KeyError ''rawHtml'')"
    by (cases ts) auto
next
  assume "fetched_html fetched_data = None \<or> fetched_html fetched_data = Some []"
  then show "fetch_main_content env sm url fetched_data h
            = ErrorResult url ''Failed to fetch content or bad status code''"
    by (auto simp: fetch_main_content_def)
next
  assume "node_tree d = None"
  then show "extract_main_content env sm url (d\<lparr>html := Some raw\<rparr>) h
            = (Inl (RuntimeError (''Failed to extract main content: ''
                                    @ str_of_error (KeyError ''node_tree''))), h)"
    by (simp add: extract_main_content_def failed_to_extract_def)
qed

theorem empty_raw_markup_witness:
  "execute_transformers stub_env (transformers stub_env) (prepare_meta ''https://ex.com/'')
       (initial_document []) empty_heap []
     = Inr ((initial_document [])\<lparr>html := Some (PyStr [])\<rparr>, empty_heap,
            map (missing_input_message \<circ> fst) (transformers stub_env))
   \<and> execute_transformers stub_env (transformers stub_env) (prepare_meta ''https://ex.com/'')
       ((initial_document [])\<lparr>rawHtml := None\<rparr>) empty_heap []
     = Inl (KeyError ''rawHtml'')
   \<and> fetch_main_content stub_env 60000 ''https://ex.com/''
       \<lparr>link = ''https://ex.com/'', status_code = Some 200, fetched_html = Some []\<rparr> empty_heap
     = ErrorResult ''https://ex.com/'' ''Failed to fetch content or bad status code''
   \<and> extract_main_content stub_env 60000 ''https://ex.com/''
       ((initial_document [])\<lparr>html := Some (PyStr [])\<rparr>) empty_heap
     = (Inl (RuntimeError (''Failed to extract main content: ''
                             @ str_of_error (KeyError ''node_tree''))), empty_heap)"
proof -
  have ne: "transformers stub_env \<noteq> []" by (simp add: transformers_def)
  have r: "rawHtml (initial_document []) = Some (PyStr [])" "node_tree (initial_document []) = None"
    by (simp_all add: initial_document_def)
  have r': "rawHtml ((initial_document [])\<lparr>rawHtml := None\<rparr>) = None" by simp
  have f: "fetched_html \<lparr>link = ''https://ex.com/'', status_code = Some 200, fetched_html = Some []\<rparr>
             = Some []" by simp
  note first = empty_raw_markup [where d = "initial_document []" and raw = "PyStr []"
      and ts = "transformers stub_env" and env = stub_env and meta = "prepare_meta ''https://ex.com/''"
      and h = empty_heap and logs = "[]" and sm = 60000 and url = "''https://ex.com/''"
      and fetched_data = "\<lparr>link = ''https://ex.com/'', status_code = Some 200, fetched_html = Some []\<rparr>"]
  note second = empty_raw_markup [where d = "(initial_document [])\<lparr>rawHtml := None\<rparr>"
      and ts = "transformers stub_env" and env = stub_env and meta = "prepare_meta ''https://ex.com/''"
      and h = empty_heap and logs = "[]"]
  from first ne r f second r' show ?thesis by simp
qed

end
